theory Spec2Isabelle
  imports Complex_Main
begin

section \<open>Array cells: float values with the IEEE special values\<close>

text \<open>
  The rasters of \<^verbatim>\<open>maxval.py\<close> are numpy float arrays. A cell is modelled as a value of
  \<open>fl\<close>: not-a-number, the two infinities, or a finite number. The special values follow
  IEEE 754 as numpy computes them under \<^verbatim>\<open>np.errstate(divide="ignore", invalid="ignore")\<close>:
  every comparison with \<open>NaN\<close> is false, \<open>0/0\<close> is \<open>NaN\<close>, \<open>x/0\<close> is an infinity.
  Finite values are reals: rounding to float32, overflow and the sign of zero are not
  modelled (a zero is the positive zero).
\<close>

datatype fl = NaN | NInf | Fin real | PInf

fun isnan :: "fl \<Rightarrow> bool" where
  "isnan NaN = True"
| "isnan _ = False"

fun fl_lt :: "fl \<Rightarrow> fl \<Rightarrow> bool" where
  "fl_lt NaN _ = False"
| "fl_lt _ NaN = False"
| "fl_lt PInf _ = False"
| "fl_lt _ NInf = False"
| "fl_lt NInf _ = True"
| "fl_lt _ PInf = True"
| "fl_lt (Fin x) (Fin y) = (x < y)"

fun fl_eq :: "fl \<Rightarrow> fl \<Rightarrow> bool" where
  "fl_eq NaN _ = False"
| "fl_eq _ NaN = False"
| "fl_eq x y = (x = y)"

definition fl_gt :: "fl \<Rightarrow> fl \<Rightarrow> bool" where
  "fl_gt x y = fl_lt y x"

definition fl_ge :: "fl \<Rightarrow> fl \<Rightarrow> bool" where
  "fl_ge x y = (fl_lt y x \<or> fl_eq x y)"

fun fl_neg :: "fl \<Rightarrow> fl" where
  "fl_neg NaN = NaN"
| "fl_neg NInf = PInf"
| "fl_neg PInf = NInf"
| "fl_neg (Fin x) = Fin (- x)"

fun fl_add :: "fl \<Rightarrow> fl \<Rightarrow> fl" where
  "fl_add NaN _ = NaN"
| "fl_add _ NaN = NaN"
| "fl_add PInf NInf = NaN"
| "fl_add NInf PInf = NaN"
| "fl_add PInf _ = PInf"
| "fl_add _ PInf = PInf"
| "fl_add NInf _ = NInf"
| "fl_add _ NInf = NInf"
| "fl_add (Fin x) (Fin y) = Fin (x + y)"

definition fl_sub :: "fl \<Rightarrow> fl \<Rightarrow> fl" where
  "fl_sub x y = fl_add x (fl_neg y)"

text \<open>The sign of a product or quotient with an infinite operand.\<close>

definition signed_inf :: "bool \<Rightarrow> fl" where
  "signed_inf positive = (if positive then PInf else NInf)"

fun fl_mul :: "fl \<Rightarrow> fl \<Rightarrow> fl" where
  "fl_mul NaN _ = NaN"
| "fl_mul _ NaN = NaN"
| "fl_mul PInf PInf = PInf"
| "fl_mul PInf NInf = NInf"
| "fl_mul NInf PInf = NInf"
| "fl_mul NInf NInf = PInf"
| "fl_mul PInf (Fin y) = (if y = 0 then NaN else signed_inf (0 < y))"
| "fl_mul NInf (Fin y) = (if y = 0 then NaN else signed_inf (y < 0))"
| "fl_mul (Fin x) PInf = (if x = 0 then NaN else signed_inf (0 < x))"
| "fl_mul (Fin x) NInf = (if x = 0 then NaN else signed_inf (x < 0))"
| "fl_mul (Fin x) (Fin y) = Fin (x * y)"

fun fl_div :: "fl \<Rightarrow> fl \<Rightarrow> fl" where
  "fl_div NaN _ = NaN"
| "fl_div _ NaN = NaN"
| "fl_div PInf PInf = NaN"
| "fl_div PInf NInf = NaN"
| "fl_div NInf PInf = NaN"
| "fl_div NInf NInf = NaN"
| "fl_div PInf (Fin y) = signed_inf (0 \<le> y)"
| "fl_div NInf (Fin y) = signed_inf (y < 0)"
| "fl_div (Fin x) PInf = Fin 0"
| "fl_div (Fin x) NInf = Fin 0"
| "fl_div (Fin x) (Fin y) =
     (if y = 0 then (if x = 0 then NaN else signed_inf (0 < x)) else Fin (x / y))"

fun fl_sqrt :: "fl \<Rightarrow> fl" where
  "fl_sqrt NaN = NaN"
| "fl_sqrt NInf = NaN"
| "fl_sqrt PInf = PInf"
| "fl_sqrt (Fin x) = (if x < 0 then NaN else Fin (sqrt x))"

text \<open>A refinement level stored into, or compared with, a float array.\<close>

definition fl_of_int :: "int \<Rightarrow> fl" where
  "fl_of_int k = Fin (of_int k)"

section \<open>Masked assignment\<close>

text \<open>
  \<^verbatim>\<open>a[mask] = b[mask]\<close> and \<^verbatim>\<open>a[mask] = v\<close> on arrays of one shape. Arrays are the
  row-major lists of their cells.
\<close>

definition assign_where :: "'a list \<Rightarrow> bool list \<Rightarrow> 'a list \<Rightarrow> 'a list" where
  "assign_where a msk b = map2 (\<lambda>x (k, y). if k then y else x) a (zip msk b)"

definition fill_where :: "'a list \<Rightarrow> bool list \<Rightarrow> 'a \<Rightarrow> 'a list" where
  "fill_where a msk v = map2 (\<lambda>x k. if k then v else x) a msk"

section \<open>Frames and the summary state\<close>

datatype error =
    ValueError string
  | ShapeError
  | NameError string

text \<open>
  What the loop body of \<^verbatim>\<open>dclaw2maxval_withlev\<close> reads for one \<^verbatim>\<open>.tif\<close> file: the frame
  number in the file name, the raster's shape, the time in the companion
  \<^verbatim>\<open>fort.t\<close> file, the cell size \<^verbatim>\<open>transform[0]\<close>, and bands 1, 2, 3, 4, 8 and 9.
  The level band holds whole numbers, the refinement levels, read here as integers; what
  becomes of a level when it is stored in a 64-bit array is \<open>to_int64\<close> below.
\<close>

record frame =
  frameno :: int
  shape :: "nat \<times> nat"
  time :: fl
  dx :: fl
  h :: "fl list"
  hu :: "fl list"
  hv :: "fl list"
  hm :: "fl list"
  eta :: "fl list"
  level :: "int list"

record summary =
  dims :: "nat \<times> nat"
  h_max :: "fl list"
  h_min :: "fl list"
  m_max :: "fl list"
  vel_max :: "fl list"
  mom_max :: "fl list"
  eta_max :: "fl list"
  lev_max :: "fl list"
  froude_max :: "fl list"
  h_max_lev :: "int list"
  h_min_lev :: "int list"
  m_max_lev :: "int list"
  vel_max_lev :: "int list"
  mom_max_lev :: "int list"
  eta_max_lev :: "int list"
  froude_max_lev :: "int list"
  arrival_time :: "fl list"
  eta_max_time :: "fl list"
  vel_max_time :: "fl list"

definition ncells :: "nat \<times> nat \<Rightarrow> nat" where
  "ncells d = fst d * snd d"

definition hmin_fill :: fl where
  "hmin_fill = Fin 99999"

text \<open>The arrays allocated before the loop (source lines 287 to 308).\<close>

definition init :: "nat \<times> nat \<Rightarrow> summary" where
  "init d =
     \<lparr> dims = d,
       h_max = replicate (ncells d) (Fin 0),
       h_min = replicate (ncells d) hmin_fill,
       m_max = replicate (ncells d) (Fin 0),
       vel_max = replicate (ncells d) (Fin 0),
       mom_max = replicate (ncells d) (Fin 0),
       eta_max = replicate (ncells d) (Fin 0),
       lev_max = replicate (ncells d) (Fin 0),
       froude_max = replicate (ncells d) (Fin 0),
       h_max_lev = replicate (ncells d) 0,
       h_min_lev = replicate (ncells d) 0,
       m_max_lev = replicate (ncells d) 0,
       vel_max_lev = replicate (ncells d) 0,
       mom_max_lev = replicate (ncells d) 0,
       eta_max_lev = replicate (ncells d) 0,
       froude_max_lev = replicate (ncells d) 0,
       arrival_time = replicate (ncells d) (Fin (- 1)),
       eta_max_time = replicate (ncells d) (Fin (- 1)),
       vel_max_time = replicate (ncells d) (Fin (- 1)) \<rparr>"

section \<open>Derived quantities (source lines 337 to 346)\<close>

definition derived_m :: "frame \<Rightarrow> fl list" where
  "derived_m fr =
     (let m = map2 fl_div (hm fr) (h fr)
      in fill_where m (map isnan m) (Fin 0))"

definition derived_vel :: "frame \<Rightarrow> fl list" where
  "derived_vel fr =
     (let u = map2 fl_div (hu fr) (h fr);
          v = map2 fl_div (hv fr) (h fr);
          vel = map fl_sqrt (map2 fl_add (map (\<lambda>x. fl_mul x x) u) (map (\<lambda>x. fl_mul x x) v))
      in fill_where vel (map isnan vel) (Fin 0))"

definition derived_froude :: "frame \<Rightarrow> fl list" where
  "derived_froude fr =
     map2 fl_div (derived_vel fr) (map (\<lambda>x. fl_sqrt (fl_mul (Fin 9.81) x)) (h fr))"

definition derived_density :: "fl \<Rightarrow> fl \<Rightarrow> frame \<Rightarrow> fl list" where
  "derived_density rho_f rho_s fr =
     map (\<lambda>m. fl_add (fl_mul (fl_sub (Fin 1) m) rho_f) (fl_mul m rho_s)) (derived_m fr)"

definition derived_mom :: "fl \<Rightarrow> fl \<Rightarrow> frame \<Rightarrow> fl list" where
  "derived_mom rho_f rho_s fr =
     map2 fl_mul
       (map2 fl_mul (map (\<lambda>x. fl_mul (fl_mul x (dx fr)) (dx fr)) (h fr))
          (derived_density rho_f rho_s fr))
       (derived_vel fr)"

section \<open>One pass of the loop body (source lines 348 to 415)\<close>

text \<open>\<^verbatim>\<open>level.max()\<close> raises on an array without cells.\<close>

fun amax :: "int list \<Rightarrow> error + int" where
  "amax [] = Inl (ValueError ''zero-size array to reduction operation maximum'')"
| "amax (x # xs) = Inr (fold max xs x)"

text \<open>Source line 351: \<^verbatim>\<open>lev_max[level > lev_max] = level[level > lev_max]\<close>.\<close>

definition update_lev_max :: "frame \<Rightarrow> summary \<Rightarrow> summary" where
  "update_lev_max fr s =
     (let flevel = map fl_of_int (level fr)
      in s\<lparr> lev_max := assign_where (lev_max s) (map2 fl_gt flevel (lev_max s)) flevel \<rparr>)"

text \<open>
  The mask \<^verbatim>\<open>((level >= q_lev) & cmp(q, q_best)) | (level > q_lev)\<close>, written seven times
  in the source (lines 354 to 374), once per tracked quantity.
\<close>

definition overwrite ::
    "(fl \<Rightarrow> fl \<Rightarrow> bool) \<Rightarrow> int list \<Rightarrow> int list \<Rightarrow> fl list \<Rightarrow> fl list \<Rightarrow> bool list" where
  "overwrite cmp lev q_lev q q_best =
     map2 (\<or>) (map2 (\<and>) (map2 (\<ge>) lev q_lev) (map2 cmp q q_best)) (map2 (>) lev q_lev)"

definition overwrite_eta :: "frame \<Rightarrow> summary \<Rightarrow> bool list" where
  "overwrite_eta fr s = overwrite fl_gt (level fr) (eta_max_lev s) (eta fr) (eta_max s)"

definition overwrite_h_max :: "frame \<Rightarrow> summary \<Rightarrow> bool list" where
  "overwrite_h_max fr s = overwrite fl_gt (level fr) (h_max_lev s) (h fr) (h_max s)"

definition overwrite_h_min :: "frame \<Rightarrow> summary \<Rightarrow> bool list" where
  "overwrite_h_min fr s = overwrite fl_lt (level fr) (h_min_lev s) (h fr) (h_min s)"

definition overwrite_m :: "frame \<Rightarrow> summary \<Rightarrow> bool list" where
  "overwrite_m fr s = overwrite fl_gt (level fr) (m_max_lev s) (derived_m fr) (m_max s)"

definition overwrite_vel :: "frame \<Rightarrow> summary \<Rightarrow> bool list" where
  "overwrite_vel fr s = overwrite fl_gt (level fr) (vel_max_lev s) (derived_vel fr) (vel_max s)"

definition overwrite_mom :: "fl \<Rightarrow> fl \<Rightarrow> frame \<Rightarrow> summary \<Rightarrow> bool list" where
  "overwrite_mom rho_f rho_s fr s =
     overwrite fl_gt (level fr) (mom_max_lev s) (derived_mom rho_f rho_s fr) (mom_max s)"

definition overwrite_froude :: "frame \<Rightarrow> summary \<Rightarrow> bool list" where
  "overwrite_froude fr s =
     overwrite fl_gt (level fr) (froude_max_lev s) (derived_froude fr) (froude_max s)"

text \<open>
  The recorded levels are \<^verbatim>\<open>np.zeros(dims, dtype=int)\<close> arrays (source lines 298 to 304),
  that is 64-bit integers, and the masked assignment of the level band into them casts each
  level: a whole number in the 64-bit range is kept, one outside it becomes the smallest
  64-bit integer.
\<close>

definition is_int64 :: "int \<Rightarrow> bool" where
  "is_int64 k = (- (2 ^ 63) \<le> k \<and> k < 2 ^ 63)"

definition to_int64 :: "int \<Rightarrow> int" where
  "to_int64 k = (if is_int64 k then k else - (2 ^ 63))"

text \<open>
  Source lines 376 to 382. \<open>s0\<close> is the state the masks were computed from; \<open>s\<close> is the
  state being updated.
\<close>

definition update_levels :: "fl \<Rightarrow> fl \<Rightarrow> frame \<Rightarrow> summary \<Rightarrow> summary \<Rightarrow> summary" where
  "update_levels rho_f rho_s fr s0 s =
     s\<lparr> eta_max_lev := assign_where (eta_max_lev s) (overwrite_eta fr s0) (map to_int64 (level fr)),
        h_max_lev := assign_where (h_max_lev s) (overwrite_h_max fr s0) (map to_int64 (level fr)),
        h_min_lev := assign_where (h_min_lev s) (overwrite_h_min fr s0) (map to_int64 (level fr)),
        m_max_lev := assign_where (m_max_lev s) (overwrite_m fr s0) (map to_int64 (level fr)),
        vel_max_lev := assign_where (vel_max_lev s) (overwrite_vel fr s0) (map to_int64 (level fr)),
        mom_max_lev := assign_where (mom_max_lev s) (overwrite_mom rho_f rho_s fr s0) (map to_int64 (level fr)),
        froude_max_lev := assign_where (froude_max_lev s) (overwrite_froude fr s0) (map to_int64 (level fr)) \<rparr>"

text \<open>
  Source lines 387 to 393. The comparison of the \<^verbatim>\<open>float32\<close> array \<^verbatim>\<open>eta\<close> with \<^verbatim>\<open>0.01\<close> is
  made in \<^verbatim>\<open>float32\<close>, where \<^verbatim>\<open>0.01\<close> is \<open>10737418 / 2 ^ 30\<close>; no \<^verbatim>\<open>float32\<close> lies
  between that number and \<open>0.01\<close>, so \<open>x > 0.01\<close> is the same test on every cell value.
\<close>

definition overwrite_arrival :: "int \<Rightarrow> frame \<Rightarrow> summary \<Rightarrow> bool list" where
  "overwrite_arrival maxlevel fr s =
     map2 (\<and>)
       (map2 (\<and>) (map (\<lambda>x. fl_gt x (Fin 0.01)) (eta fr))
          (map (\<lambda>x. fl_lt x (Fin 0)) (arrival_time s)))
       (map (\<lambda>l. l = maxlevel) (level fr))"

definition update_arrival :: "int \<Rightarrow> frame \<Rightarrow> summary \<Rightarrow> summary" where
  "update_arrival maxlevel fr s =
     (let mask_arrival = overwrite_arrival maxlevel fr s
      in s\<lparr> arrival_time := fill_where (arrival_time s) mask_arrival (time fr),
            eta_max_time := fill_where (eta_max_time s) mask_arrival (time fr),
            vel_max_time := fill_where (vel_max_time s) mask_arrival (time fr) \<rparr>)"

text \<open>Source lines 396 to 402.\<close>

definition update_values :: "fl \<Rightarrow> fl \<Rightarrow> frame \<Rightarrow> summary \<Rightarrow> summary \<Rightarrow> summary" where
  "update_values rho_f rho_s fr s0 s =
     s\<lparr> h_max := assign_where (h_max s) (overwrite_h_max fr s0) (h fr),
        h_min := assign_where (h_min s) (overwrite_h_min fr s0) (h fr),
        m_max := assign_where (m_max s) (overwrite_m fr s0) (derived_m fr),
        vel_max := assign_where (vel_max s) (overwrite_vel fr s0) (derived_vel fr),
        mom_max :=
          assign_where (mom_max s) (overwrite_mom rho_f rho_s fr s0) (derived_mom rho_f rho_s fr),
        eta_max := assign_where (eta_max s) (overwrite_eta fr s0) (eta fr),
        froude_max := assign_where (froude_max s) (overwrite_froude fr s0) (derived_froude fr) \<rparr>"

text \<open>Source lines 405 to 415.\<close>

definition not_super_late :: "frame \<Rightarrow> summary \<Rightarrow> bool list" where
  "not_super_late fr s =
     map2 (\<and>)
       (map (\<lambda>t. fl_lt (fl_sub (time fr) t) (Fin (1 * 60))) (eta_max_time s))
       (map (\<lambda>a. fl_ge a (Fin 0)) (arrival_time s))"

definition update_peak_times :: "frame \<Rightarrow> summary \<Rightarrow> summary \<Rightarrow> summary" where
  "update_peak_times fr s0 s =
     (let overwrite_eta_time = map2 (\<and>) (overwrite_eta fr s0) (not_super_late fr s);
          overwrite_vel_time = map2 (\<and>) (overwrite_vel fr s0) (not_super_late fr s)
      in s\<lparr> eta_max_time := fill_where (eta_max_time s) overwrite_eta_time (time fr),
            vel_max_time := fill_where (vel_max_time s) overwrite_vel_time (time fr) \<rparr>)"

text \<open>
  The loop body for one processed file. A raster whose shape differs from \<^verbatim>\<open>dims\<close> makes
  the first masked assignment raise (numpy cannot broadcast or index the arrays).
\<close>

definition fold_frame :: "fl \<Rightarrow> fl \<Rightarrow> frame \<Rightarrow> summary \<Rightarrow> error + summary" where
  "fold_frame rho_f rho_s fr s =
     (case amax (level fr) of
        Inl e \<Rightarrow> Inl e
      | Inr maxlevel \<Rightarrow>
          if shape fr \<noteq> dims s then Inl ShapeError
          else
            let s1 = update_lev_max fr s;
                s2 = update_levels rho_f rho_s fr s1 s1;
                s3 = update_arrival maxlevel fr s2;
                s4 = update_values rho_f rho_s fr s1 s3
            in Inr (update_peak_times fr s1 s4))"

section \<open>After the loop (source lines 417 to 430)\<close>

text \<open>
  Source line 417 compares the \<^verbatim>\<open>float32\<close> array \<^verbatim>\<open>h_max\<close> with \<^verbatim>\<open>0.00001\<close>, and numpy
  makes the comparison in \<^verbatim>\<open>float32\<close>, where \<^verbatim>\<open>0.00001\<close> is the number \<open>2748779 / 2 ^ 38\<close>,
  a little below \<open>0.00001\<close>.
\<close>

definition never_inundated_below :: real where
  "never_inundated_below = 2748779 / 2 ^ 38"

definition finalize :: "summary \<Rightarrow> summary" where
  "finalize s =
     (let never_inundated = map (\<lambda>x. fl_lt x (Fin never_inundated_below)) (h_max s);
          s1 = s\<lparr> h_max := fill_where (h_max s) never_inundated NaN \<rparr>;
          s2 = s1\<lparr> h_min := fill_where (h_min s1) (map (\<lambda>x. fl_eq x (Fin 0)) (h_min s1)) NaN \<rparr>;
          s3 = s2\<lparr> m_max := fill_where (m_max s2) never_inundated NaN,
                    vel_max := fill_where (vel_max s2) never_inundated NaN,
                    mom_max := fill_where (mom_max s2) never_inundated NaN,
                    eta_max_time := fill_where (eta_max_time s2) never_inundated NaN,
                    vel_max_time := fill_where (vel_max_time s2) never_inundated NaN,
                    arrival_time := fill_where (arrival_time s2) never_inundated NaN,
                    froude_max := fill_where (froude_max s2) never_inundated NaN \<rparr>;
          s4 = s3\<lparr> eta_max_time :=
                      fill_where (eta_max_time s3)
                        (map (\<lambda>x. fl_lt x (Fin 0)) (eta_max_time s3)) NaN \<rparr>;
          s5 = s4\<lparr> vel_max_time :=
                      fill_where (vel_max_time s4)
                        (map (\<lambda>x. fl_lt x (Fin 0)) (vel_max_time s4)) NaN \<rparr>
      in s5\<lparr> arrival_time :=
                fill_where (arrival_time s5) (map (\<lambda>x. fl_lt x (Fin 0)) (arrival_time s5)) NaN \<rparr>)"

section \<open>The whole reduction\<close>

text \<open>The bands handed to \<^verbatim>\<open>dst.write\<close>, in band order (source lines 446 to 458).\<close>

definition write_bands :: "bool \<Rightarrow> summary \<Rightarrow> fl list list" where
  "write_bands write_froude s =
     [h_max s, vel_max s, mom_max s, m_max s, eta_max_time s, vel_max_time s,
      eta_max s, lev_max s, arrival_time s, h_min s]
     @ (if write_froude then [froude_max s] else [])"

text \<open>\<^verbatim>\<open>calc\<close>: a frame is processed unless \<^verbatim>\<open>nplots\<close> is given and does not hold its number.\<close>

definition calc :: "int list option \<Rightarrow> frame \<Rightarrow> bool" where
  "calc nplots fr = (case nplots of None \<Rightarrow> True | Some ns \<Rightarrow> frameno fr \<in> set ns)"

text \<open>The loop over the frames that are processed; an exception ends it.\<close>

fun fold_frames :: "fl \<Rightarrow> fl \<Rightarrow> frame list \<Rightarrow> summary \<Rightarrow> error + summary" where
  "fold_frames rho_f rho_s [] s = Inr s"
| "fold_frames rho_f rho_s (fr # frs) s =
     (case fold_frame rho_f rho_s fr s of
        Inl e \<Rightarrow> Inl e
      | Inr s' \<Rightarrow> fold_frames rho_f rho_s frs s')"

text \<open>
  The function from its file list to the bands it writes. \<open>files\<close> is the sorted result of
  the glob. When no frame is processed, \<^verbatim>\<open>profile\<close> is unbound at source line 438.
\<close>

definition dclaw2maxval_withlev ::
    "int list option \<Rightarrow> fl \<Rightarrow> fl \<Rightarrow> bool \<Rightarrow> frame list \<Rightarrow> error + fl list list" where
  "dclaw2maxval_withlev nplots rho_f rho_s write_froude files =
     (if length files = 0 then Inl (ValueError ''no files'')
      else
        case fold_frames rho_f rho_s (filter (calc nplots) files) (init (shape (hd files))) of
          Inl e \<Rightarrow> Inl e
        | Inr s \<Rightarrow>
            if filter (calc nplots) files = [] then Inl (NameError ''profile'')
            else Inr (write_bands write_froude (finalize s)))"

section \<open>Well-formed inputs and the tracked quantities\<close>

text \<open>
  Every band of a raster has the raster's shape, and every array of the summary has the
  shape \<^verbatim>\<open>dims\<close> it was allocated with.
\<close>

definition wf_frame :: "frame \<Rightarrow> bool" where
  "wf_frame fr =
     (length (h fr) = ncells (shape fr) \<and> length (hu fr) = ncells (shape fr) \<and>
      length (hv fr) = ncells (shape fr) \<and> length (hm fr) = ncells (shape fr) \<and>
      length (eta fr) = ncells (shape fr) \<and> length (level fr) = ncells (shape fr))"

definition wf_summary :: "summary \<Rightarrow> bool" where
  "wf_summary s =
     (length (h_max s) = ncells (dims s) \<and> length (h_min s) = ncells (dims s) \<and>
      length (m_max s) = ncells (dims s) \<and> length (vel_max s) = ncells (dims s) \<and>
      length (mom_max s) = ncells (dims s) \<and> length (eta_max s) = ncells (dims s) \<and>
      length (lev_max s) = ncells (dims s) \<and> length (froude_max s) = ncells (dims s) \<and>
      length (h_max_lev s) = ncells (dims s) \<and> length (h_min_lev s) = ncells (dims s) \<and>
      length (m_max_lev s) = ncells (dims s) \<and> length (vel_max_lev s) = ncells (dims s) \<and>
      length (mom_max_lev s) = ncells (dims s) \<and> length (eta_max_lev s) = ncells (dims s) \<and>
      length (froude_max_lev s) = ncells (dims s) \<and> length (arrival_time s) = ncells (dims s) \<and>
      length (eta_max_time s) = ncells (dims s) \<and> length (vel_max_time s) = ncells (dims s))"

text \<open>
  The seven tracked quantities, each with its array of best values, its array of recorded
  levels, the frame array it is compared with, and its comparison (source lines 354 to 402).
\<close>

datatype quantity = Q_eta | Q_h_max | Q_h_min | Q_m | Q_vel | Q_mom | Q_froude

fun q_value :: "quantity \<Rightarrow> summary \<Rightarrow> fl list" where
  "q_value Q_eta s = eta_max s"
| "q_value Q_h_max s = h_max s"
| "q_value Q_h_min s = h_min s"
| "q_value Q_m s = m_max s"
| "q_value Q_vel s = vel_max s"
| "q_value Q_mom s = mom_max s"
| "q_value Q_froude s = froude_max s"

fun q_level :: "quantity \<Rightarrow> summary \<Rightarrow> int list" where
  "q_level Q_eta s = eta_max_lev s"
| "q_level Q_h_max s = h_max_lev s"
| "q_level Q_h_min s = h_min_lev s"
| "q_level Q_m s = m_max_lev s"
| "q_level Q_vel s = vel_max_lev s"
| "q_level Q_mom s = mom_max_lev s"
| "q_level Q_froude s = froude_max_lev s"

fun q_new :: "fl \<Rightarrow> fl \<Rightarrow> quantity \<Rightarrow> frame \<Rightarrow> fl list" where
  "q_new rho_f rho_s Q_eta fr = eta fr"
| "q_new rho_f rho_s Q_h_max fr = h fr"
| "q_new rho_f rho_s Q_h_min fr = h fr"
| "q_new rho_f rho_s Q_m fr = derived_m fr"
| "q_new rho_f rho_s Q_vel fr = derived_vel fr"
| "q_new rho_f rho_s Q_mom fr = derived_mom rho_f rho_s fr"
| "q_new rho_f rho_s Q_froude fr = derived_froude fr"

fun q_cmp :: "quantity \<Rightarrow> fl \<Rightarrow> fl \<Rightarrow> bool" where
  "q_cmp Q_h_min = fl_lt"
| "q_cmp _ = fl_gt"

section \<open>Example frames on a grid of one cell\<close>

definition fr_dry :: frame where
  "fr_dry = \<lparr> frameno = 0, shape = (1, 1), time = Fin 0, dx = Fin 1,
              h = [Fin 0], hu = [Fin 0], hv = [Fin 0], hm = [Fin 0], eta = [Fin 0],
              level = [1] \<rparr>"

definition fr_a :: frame where
  "fr_a = \<lparr> frameno = 1, shape = (1, 1), time = Fin 10, dx = Fin 1,
            h = [Fin 5], hu = [Fin 0], hv = [Fin 0], hm = [Fin 0], eta = [Fin 5],
            level = [1] \<rparr>"

definition fr_b :: frame where
  "fr_b = \<lparr> frameno = 2, shape = (1, 1), time = Fin 20, dx = Fin 1,
            h = [Fin 3], hu = [Fin 0], hv = [Fin 0], hm = [Fin 0], eta = [Fin 3],
            level = [2] \<rparr>"

text \<open>
  The summary after \<open>fr_dry\<close> is folded into the initial one, and after \<open>fr_a\<close> is folded
  into that.
\<close>

definition s_dry :: summary where
  "s_dry = (init (1, 1))
     \<lparr> h_min := [Fin 0], lev_max := [Fin 1], froude_max := [NaN],
       h_max_lev := [1], h_min_lev := [1], m_max_lev := [1], vel_max_lev := [1],
       mom_max_lev := [1], eta_max_lev := [1], froude_max_lev := [1] \<rparr>"

definition s_wet :: summary where
  "s_wet = s_dry \<lparr> h_max := [Fin 5], eta_max := [Fin 5], arrival_time := [Fin 10],
                   eta_max_time := [Fin 10], vel_max_time := [Fin 10] \<rparr>"

section \<open>Lemmas on the array operations and on one pass\<close>

lemma length_assign_where [simp]:
  "length (assign_where a msk b) = min (length a) (min (length msk) (length b))"
  by (simp add: assign_where_def)

lemma length_fill_where [simp]:
  "length (fill_where a msk v) = min (length a) (length msk)"
  by (simp add: fill_where_def)

lemma nth_assign_where:
  "i < length a \<Longrightarrow> i < length msk \<Longrightarrow> i < length b \<Longrightarrow>
   assign_where a msk b ! i = (if msk ! i then b ! i else a ! i)"
  by (simp add: assign_where_def)

lemma nth_fill_where:
  "i < length a \<Longrightarrow> i < length msk \<Longrightarrow>
   fill_where a msk v ! i = (if msk ! i then v else a ! i)"
  by (simp add: fill_where_def)

lemma length_overwrite [simp]:
  "length (overwrite cmp lev q_lev q q_best) =
     min (min (length lev) (length q_lev)) (min (length q) (length q_best))"
  by (simp add: overwrite_def)

lemma nth_overwrite:
  "i < length lev \<Longrightarrow> i < length q_lev \<Longrightarrow> i < length q \<Longrightarrow> i < length q_best \<Longrightarrow>
   overwrite cmp lev q_lev q q_best ! i =
     ((q_lev ! i \<le> lev ! i \<and> cmp (q ! i) (q_best ! i)) \<or> q_lev ! i < lev ! i)"
  by (simp add: overwrite_def)

lemma length_derived_m [simp]: "length (derived_m fr) = min (length (hm fr)) (length (h fr))"
  by (simp add: derived_m_def Let_def)

lemma length_derived_vel [simp]:
  "length (derived_vel fr) = min (min (length (hu fr)) (length (h fr))) (min (length (hv fr)) (length (h fr)))"
  by (simp add: derived_vel_def Let_def)

lemma length_derived_froude [simp]:
  "length (derived_froude fr) = min (length (derived_vel fr)) (length (h fr))"
  by (simp add: derived_froude_def)

lemma length_derived_mom [simp]:
  "length (derived_mom rho_f rho_s fr) =
     min (min (length (h fr)) (length (derived_m fr))) (length (derived_vel fr))"
  by (simp add: derived_mom_def derived_density_def)

lemma fold_frame_InrD:
  assumes "fold_frame rho_f rho_s fr s = Inr s'"
  shows "shape fr = dims s" and "level fr \<noteq> []"
  using assms by (auto simp: fold_frame_def split: sum.splits if_splits)

lemmas stage_defs = update_lev_max_def update_levels_def update_arrival_def update_values_def
  update_peak_times_def

lemmas mask_defs = overwrite_eta_def overwrite_h_max_def overwrite_h_min_def overwrite_m_def
  overwrite_vel_def overwrite_mom_def overwrite_froude_def


lemma amax_nonempty: "xs \<noteq> [] \<Longrightarrow> amax xs = Inr (Max (set xs))"
proof (cases xs)
  case Nil
  assume "xs \<noteq> []"
  with Nil show ?thesis by simp
next
  case (Cons x ys)
  have "fold max ys x = Max (set (x # ys))"
    by (rule Max.set_eq_fold [symmetric])
  with Cons show ?thesis by (simp del: set_simps)
qed

lemma fold_frame_Inr:
  assumes "level fr \<noteq> []" and "shape fr = dims s"
  shows "fold_frame rho_f rho_s fr s =
     Inr (update_peak_times fr s
            (update_values rho_f rho_s fr s
               (update_arrival (Max (set (level fr))) fr
                  (update_levels rho_f rho_s fr s (update_lev_max fr s)))))"
  using assms by (simp add: fold_frame_def amax_nonempty Let_def stage_defs mask_defs)

lemma fold_frame_cases:
  assumes "fold_frame rho_f rho_s fr s = Inr s'"
  shows "s' = update_peak_times fr s
            (update_values rho_f rho_s fr s
               (update_arrival (Max (set (level fr))) fr
                  (update_levels rho_f rho_s fr s (update_lev_max fr s))))"
  using assms fold_frame_Inr [OF fold_frame_InrD(2) [OF assms] fold_frame_InrD(1) [OF assms]]
  by simp

lemma fold_frame_fields:
  assumes "fold_frame rho_f rho_s fr s = Inr s'"
  shows "dims s' = dims s"
    and "lev_max s' = assign_where (lev_max s)
           (map2 fl_gt (map fl_of_int (level fr)) (lev_max s)) (map fl_of_int (level fr))"
    and "q_value Q s' = assign_where (q_value Q s)
           (overwrite (q_cmp Q) (level fr) (q_level Q s) (q_new rho_f rho_s Q fr) (q_value Q s))
           (q_new rho_f rho_s Q fr)"
    and "q_level Q s' = assign_where (q_level Q s)
           (overwrite (q_cmp Q) (level fr) (q_level Q s) (q_new rho_f rho_s Q fr) (q_value Q s))
           (map to_int64 (level fr))"
    and "arrival_time s' =
           fill_where (arrival_time s) (overwrite_arrival (Max (set (level fr))) fr s) (time fr)"
proof -
  note eq = fold_frame_cases [OF assms]
  show "dims s' = dims s"
    by (simp add: eq stage_defs Let_def)
  show "lev_max s' = assign_where (lev_max s)
           (map2 fl_gt (map fl_of_int (level fr)) (lev_max s)) (map fl_of_int (level fr))"
    by (simp add: eq stage_defs Let_def)
  show "q_value Q s' = assign_where (q_value Q s)
           (overwrite (q_cmp Q) (level fr) (q_level Q s) (q_new rho_f rho_s Q fr) (q_value Q s))
           (q_new rho_f rho_s Q fr)"
    by (cases Q) (simp_all add: eq stage_defs Let_def mask_defs)
  show "q_level Q s' = assign_where (q_level Q s)
           (overwrite (q_cmp Q) (level fr) (q_level Q s) (q_new rho_f rho_s Q fr) (q_value Q s))
           (map to_int64 (level fr))"
    by (cases Q) (simp_all add: eq stage_defs Let_def mask_defs)
  show "arrival_time s' =
           fill_where (arrival_time s) (overwrite_arrival (Max (set (level fr))) fr s) (time fr)"
    by (simp add: eq stage_defs Let_def overwrite_arrival_def)
qed


lemma wf_init: "wf_summary (init d)"
  by (simp add: wf_summary_def init_def)

lemma length_q_value: "wf_summary s \<Longrightarrow> length (q_value Q s) = ncells (dims s)"
  by (cases Q) (simp_all add: wf_summary_def)

lemma length_q_level: "wf_summary s \<Longrightarrow> length (q_level Q s) = ncells (dims s)"
  by (cases Q) (simp_all add: wf_summary_def)

lemma length_q_new: "wf_frame fr \<Longrightarrow> length (q_new rho_f rho_s Q fr) = ncells (shape fr)"
  by (cases Q) (simp_all add: wf_frame_def)

lemma fold_frame_wf:
  assumes "fold_frame rho_f rho_s fr s = Inr s'" and "wf_frame fr" and "wf_summary s"
  shows "wf_summary s'"
proof -
  note sh = fold_frame_InrD(1) [OF assms(1)]
  have lv: "length (level fr) = ncells (dims s)"
    using assms(2) sh by (simp add: wf_frame_def)
  have et: "length (eta fr) = ncells (dims s)"
    using assms(2) sh by (simp add: wf_frame_def)
  have qv: "\<And>Q. length (q_value Q s') = ncells (dims s)"
    using assms(2,3) sh lv
    by (simp add: fold_frame_fields(3) [OF assms(1)] length_q_value length_q_level length_q_new)
  have ql: "\<And>Q. length (q_level Q s') = ncells (dims s)"
    using assms(2,3) sh lv
    by (simp add: fold_frame_fields(4) [OF assms(1)] length_q_value length_q_level length_q_new)
  have lm: "length (lev_max s') = ncells (dims s)"
    using assms(3) lv by (simp add: fold_frame_fields(2) [OF assms(1)] wf_summary_def)
  have tm: "length (arrival_time s') = ncells (dims s)"
       "length (eta_max_time s') = ncells (dims s)"
       "length (vel_max_time s') = ncells (dims s)"
    using assms(3) lv et qv [of Q_eta] qv [of Q_vel] assms(2) sh
    by (simp_all add: fold_frame_cases [OF assms(1)] stage_defs Let_def wf_summary_def
          overwrite_arrival_def not_super_late_def mask_defs wf_frame_def)
  show ?thesis
    unfolding wf_summary_def fold_frame_fields(1) [OF assms(1)]
    using qv [of Q_eta] qv [of Q_h_max] qv [of Q_h_min] qv [of Q_m] qv [of Q_vel] qv [of Q_mom]
      qv [of Q_froude] ql [of Q_eta] ql [of Q_h_max] ql [of Q_h_min] ql [of Q_m] ql [of Q_vel]
      ql [of Q_mom] ql [of Q_froude] lm tm
    by simp
qed

lemma fold_frame_cell:
  assumes "fold_frame rho_f rho_s fr s = Inr s'" and "wf_frame fr" and "wf_summary s"
    and "i < ncells (dims s)"
  shows "q_value Q s' ! i =
           (if (q_level Q s ! i \<le> level fr ! i \<and>
                q_cmp Q (q_new rho_f rho_s Q fr ! i) (q_value Q s ! i)) \<or>
               q_level Q s ! i < level fr ! i
            then q_new rho_f rho_s Q fr ! i else q_value Q s ! i)"
    and "q_level Q s' ! i =
           (if (q_level Q s ! i \<le> level fr ! i \<and>
                q_cmp Q (q_new rho_f rho_s Q fr ! i) (q_value Q s ! i)) \<or>
               q_level Q s ! i < level fr ! i
            then to_int64 (level fr ! i) else q_level Q s ! i)"
proof -
  note sh = fold_frame_InrD(1) [OF assms(1)]
  have lv: "length (level fr) = ncells (dims s)"
    using assms(2) sh by (simp add: wf_frame_def)
  note len = lv length_q_value [OF assms(3), of Q] length_q_level [OF assms(3), of Q]
    length_q_new [OF assms(2), of rho_f rho_s Q, unfolded sh]
  show "q_value Q s' ! i =
           (if (q_level Q s ! i \<le> level fr ! i \<and>
                q_cmp Q (q_new rho_f rho_s Q fr ! i) (q_value Q s ! i)) \<or>
               q_level Q s ! i < level fr ! i
            then q_new rho_f rho_s Q fr ! i else q_value Q s ! i)"
    using assms(4) len
    by (simp add: fold_frame_fields(3) [OF assms(1)] nth_assign_where nth_overwrite)
  show "q_level Q s' ! i =
           (if (q_level Q s ! i \<le> level fr ! i \<and>
                q_cmp Q (q_new rho_f rho_s Q fr ! i) (q_value Q s ! i)) \<or>
               q_level Q s ! i < level fr ! i
            then to_int64 (level fr ! i) else q_level Q s ! i)"
    using assms(4) len
    by (simp add: fold_frame_fields(4) [OF assms(1)] nth_assign_where nth_overwrite)
qed


lemma fold_frame_total:
  assumes "wf_frame fr" and "shape fr = dims s" and "i < ncells (dims s)"
  shows "\<exists>s'. fold_frame rho_f rho_s fr s = Inr s'"
proof -
  have "level fr \<noteq> []"
    using assms by (auto simp: wf_frame_def)
  from fold_frame_Inr [OF this assms(2)] show ?thesis by blast
qed

lemma length_overwrite_arrival:
  "length (overwrite_arrival ml fr s) =
     min (min (length (eta fr)) (length (arrival_time s))) (length (level fr))"
  by (simp add: overwrite_arrival_def)

lemma nth_overwrite_arrival:
  "i < length (eta fr) \<Longrightarrow> i < length (arrival_time s) \<Longrightarrow> i < length (level fr) \<Longrightarrow>
   overwrite_arrival ml fr s ! i =
     (fl_gt (eta fr ! i) (Fin 0.01) \<and> fl_lt (arrival_time s ! i) (Fin 0) \<and> level fr ! i = ml)"
  by (simp add: overwrite_arrival_def)


lemma fold_frame_arrival_cell:
  assumes "fold_frame rho_f rho_s fr s = Inr s'" and "wf_frame fr" and "wf_summary s"
    and "i < ncells (dims s)"
  shows "arrival_time s' ! i =
           (if fl_gt (eta fr ! i) (Fin 0.01) \<and> fl_lt (arrival_time s ! i) (Fin 0) \<and>
               level fr ! i = Max (set (level fr))
            then time fr else arrival_time s ! i)"
proof -
  note sh = fold_frame_InrD(1) [OF assms(1)]
  have len: "length (level fr) = ncells (dims s)" "length (eta fr) = ncells (dims s)"
      "length (arrival_time s) = ncells (dims s)"
    using assms(2,3) sh by (simp_all add: wf_frame_def wf_summary_def)
  show ?thesis
    using assms(4) len
    by (simp add: fold_frame_fields(5) [OF assms(1)] nth_fill_where nth_overwrite_arrival
          length_overwrite_arrival)
qed


lemma fold_frames_total:
  assumes "list_all (\<lambda>fr. wf_frame fr \<and> shape fr = dims s) frs" and "wf_summary s"
    and "i < ncells (dims s)"
  shows "\<exists>s'. fold_frames rho_f rho_s frs s = Inr s' \<and> wf_summary s' \<and> dims s' = dims s"
  using assms
proof (induction frs arbitrary: s)
  case Nil
  then show ?case by simp
next
  case (Cons fr frs)
  from Cons.prems(1) have fr: "wf_frame fr" "shape fr = dims s"
    and rest: "list_all (\<lambda>fr. wf_frame fr \<and> shape fr = dims s) frs"
    by simp_all
  from fold_frame_total [OF fr Cons.prems(3)]
  obtain s1 where s1: "fold_frame rho_f rho_s fr s = Inr s1" by blast
  have wf1: "wf_summary s1" by (rule fold_frame_wf [OF s1 fr(1) Cons.prems(2)])
  have d1: "dims s1 = dims s" by (rule fold_frame_fields(1) [OF s1])
  from Cons.IH [of s1] rest wf1 d1 Cons.prems(3)
  obtain s' where "fold_frames rho_f rho_s frs s1 = Inr s'" "wf_summary s'" "dims s' = dims s"
    by auto
  with s1 show ?case by simp
qed

lemma to_int64_id: "is_int64 k \<Longrightarrow> to_int64 k = k"
  by (simp add: to_int64_def)

lemma is_int64_small: "is_int64 1" "is_int64 2"
  by (simp_all add: is_int64_def)

lemma fold_frame_level_mono:
  assumes "fold_frame rho_f rho_s fr s = Inr s'" and "wf_frame fr" and "wf_summary s"
    and "i < ncells (dims s)" and "is_int64 (level fr ! i)"
  shows "q_level Q s ! i \<le> q_level Q s' ! i"
  using assms(5) by (simp add: fold_frame_cell(2) [OF assms(1-4)] to_int64_id)

lemma fl_ge_not_lt: "fl_ge x (Fin 0) \<Longrightarrow> \<not> fl_lt x (Fin 0)"
  by (cases x) (auto simp: fl_ge_def)

lemma fill_where_self:
  "fill_where a (map p a) v = map (\<lambda>x. if p x then v else x) a"
  by (induction a) (simp_all add: fill_where_def)

lemma fill_where_all_False:
  "length b \<le> length xs \<Longrightarrow> fill_where b (map (\<lambda>_. False) xs) v = b"
  by (induction b arbitrary: xs) (auto simp: fill_where_def Suc_le_length_iff)

lemma finalize_fields:
  "dims (finalize s) = dims s"
  "h_max (finalize s) = map (\<lambda>x. if fl_lt x (Fin never_inundated_below) then NaN else x) (h_max s)"
  "h_min (finalize s) = map (\<lambda>x. if fl_eq x (Fin 0) then NaN else x) (h_min s)"
  "m_max (finalize s) = fill_where (m_max s) (map (\<lambda>x. fl_lt x (Fin never_inundated_below)) (h_max s)) NaN"
  "vel_max (finalize s) = fill_where (vel_max s) (map (\<lambda>x. fl_lt x (Fin never_inundated_below)) (h_max s)) NaN"
  "mom_max (finalize s) = fill_where (mom_max s) (map (\<lambda>x. fl_lt x (Fin never_inundated_below)) (h_max s)) NaN"
  "froude_max (finalize s) =
     fill_where (froude_max s) (map (\<lambda>x. fl_lt x (Fin never_inundated_below)) (h_max s)) NaN"
  "eta_max_time (finalize s) =
     map (\<lambda>x. if fl_lt x (Fin 0) then NaN else x)
       (fill_where (eta_max_time s) (map (\<lambda>x. fl_lt x (Fin never_inundated_below)) (h_max s)) NaN)"
  "vel_max_time (finalize s) =
     map (\<lambda>x. if fl_lt x (Fin 0) then NaN else x)
       (fill_where (vel_max_time s) (map (\<lambda>x. fl_lt x (Fin never_inundated_below)) (h_max s)) NaN)"
  "arrival_time (finalize s) =
     map (\<lambda>x. if fl_lt x (Fin 0) then NaN else x)
       (fill_where (arrival_time s) (map (\<lambda>x. fl_lt x (Fin never_inundated_below)) (h_max s)) NaN)"
  "eta_max (finalize s) = eta_max s"
  "lev_max (finalize s) = lev_max s"
  "h_max_lev (finalize s) = h_max_lev s"
  "h_min_lev (finalize s) = h_min_lev s"
  "m_max_lev (finalize s) = m_max_lev s"
  "vel_max_lev (finalize s) = vel_max_lev s"
  "mom_max_lev (finalize s) = mom_max_lev s"
  "eta_max_lev (finalize s) = eta_max_lev s"
  "froude_max_lev (finalize s) = froude_max_lev s"
  by (simp_all add: finalize_def Let_def fill_where_self)

lemma never_after_finalize:
  "map (\<lambda>x. fl_lt x (Fin never_inundated_below)) (h_max (finalize s)) = map (\<lambda>_. False) (h_max s)"
  by (simp add: finalize_fields(2))

lemma mask_twice:
  "fill_where (fill_where a (map p xs) v) (map (\<lambda>_. False) xs) v = fill_where a (map p xs) v"
  by (rule fill_where_all_False) simp

lemma mask_negative_twice:
  "map (\<lambda>x. if fl_lt x (Fin 0) then NaN else x)
     (fill_where (map (\<lambda>x. if fl_lt x (Fin 0) then NaN else x) (fill_where a (map p xs) v))
        (map (\<lambda>_. False) xs) v) =
   map (\<lambda>x. if fl_lt x (Fin 0) then NaN else x) (fill_where a (map p xs) v)"
proof -
  have "fill_where (map (\<lambda>x. if fl_lt x (Fin 0) then NaN else x) (fill_where a (map p xs) v))
          (map (\<lambda>_. False) xs) v =
        map (\<lambda>x. if fl_lt x (Fin 0) then NaN else x) (fill_where a (map p xs) v)"
    by (rule fill_where_all_False) simp
  then show ?thesis by simp
qed

lemma derived_dry:
  "derived_m fr_dry = [Fin 0]" "derived_vel fr_dry = [Fin 0]" "derived_froude fr_dry = [NaN]"
  "derived_mom (Fin 1000) (Fin 2700) fr_dry = [Fin 0]"
  by (simp_all add: derived_m_def derived_vel_def derived_froude_def derived_mom_def
        derived_density_def fr_dry_def fill_where_def fl_sub_def Let_def)

lemma fold_dry: "fold_frame (Fin 1000) (Fin 2700) fr_dry (init (1, 1)) = Inr s_dry"
proof -
  have sh: "shape fr_dry = dims (init (1, 1))" and lv: "level fr_dry \<noteq> []"
    by (simp_all add: fr_dry_def init_def)
  have f: "level fr_dry = [1]" "eta fr_dry = [Fin 0]" "h fr_dry = [Fin 0]" "time fr_dry = Fin 0"
    by (simp_all add: fr_dry_def)
  show ?thesis
    unfolding fold_frame_Inr [OF lv sh]
    by (simp add: stage_defs mask_defs overwrite_def overwrite_arrival_def not_super_late_def
          derived_dry f init_def ncells_def hmin_fill_def s_dry_def assign_where_def
          fill_where_def fl_of_int_def fl_gt_def fl_ge_def fl_sub_def Let_def to_int64_def
          is_int64_def)
qed

lemma derived_a:
  "derived_m fr_a = [Fin 0]" "derived_vel fr_a = [Fin 0]" "derived_froude fr_a = [Fin 0]"
  "derived_mom (Fin 1000) (Fin 2700) fr_a = [Fin 0]"
  by (simp_all add: derived_m_def derived_vel_def derived_froude_def derived_mom_def
        derived_density_def fr_a_def fill_where_def fl_sub_def Let_def)

lemma fold_wet: "fold_frame (Fin 1000) (Fin 2700) fr_a s_dry = Inr s_wet"
proof -
  have sh: "shape fr_a = dims s_dry" and lv: "level fr_a \<noteq> []"
    by (simp_all add: fr_a_def init_def s_dry_def)
  have f: "level fr_a = [1]" "eta fr_a = [Fin 5]" "h fr_a = [Fin 5]" "time fr_a = Fin 10"
    by (simp_all add: fr_a_def)
  show ?thesis
    unfolding fold_frame_Inr [OF lv sh]
    by (simp add: stage_defs mask_defs overwrite_def overwrite_arrival_def not_super_late_def
          derived_a f init_def ncells_def hmin_fill_def s_dry_def s_wet_def assign_where_def
          fill_where_def fl_of_int_def fl_gt_def fl_ge_def fl_sub_def Let_def to_int64_def
          is_int64_def)
qed

lemma wf_fr_a: "wf_frame fr_a"
  by (simp add: wf_frame_def fr_a_def ncells_def)

lemma wf_fr_b: "wf_frame fr_b"
  by (simp add: wf_frame_def fr_b_def ncells_def)

lemma shape_fr_a: "shape fr_a = dims (init (1, 1))"
  by (simp add: fr_a_def init_def)

lemma shape_fr_b: "shape fr_b = dims (init (1, 1))"
  by (simp add: fr_b_def init_def)

lemma cell0: "(0::nat) < ncells (dims (init (1, 1)))"
  by (simp add: init_def ncells_def)

section \<open>The claims\<close>

text \<open>
  C1. One pass over a frame whose raster has the shape of the summary returns, and for each
  of the seven tracked quantities and each cell whose level in the frame is a 64-bit integer,
  the recorded value and the recorded level become the frame's value and the frame's level
  exactly when the frame's level is at least the recorded level and the frame's value wins
  the comparison, or the frame's level is above the recorded level; otherwise both stay as
  they were.
\<close>

theorem overwrite_rule:
  assumes "wf_frame fr" and "wf_summary s" and "shape fr = dims s" and "i < ncells (dims s)"
    and "is_int64 (level fr ! i)"
  shows "\<exists>s'. fold_frame rho_f rho_s fr s = Inr s' \<and>
           (\<forall>Q. let wins = (q_level Q s ! i \<le> level fr ! i \<and>
                             q_cmp Q (q_new rho_f rho_s Q fr ! i) (q_value Q s ! i)) \<or>
                            q_level Q s ! i < level fr ! i
                in q_value Q s' ! i = (if wins then q_new rho_f rho_s Q fr ! i else q_value Q s ! i) \<and>
                   q_level Q s' ! i = (if wins then level fr ! i else q_level Q s ! i))"
proof -
  from fold_frame_total [OF assms(1,3,4)]
  obtain s' where s': "fold_frame rho_f rho_s fr s = Inr s'" by blast
  have "\<And>Q. q_level Q s' ! i =
           (if (q_level Q s ! i \<le> level fr ! i \<and>
                q_cmp Q (q_new rho_f rho_s Q fr ! i) (q_value Q s ! i)) \<or>
               q_level Q s ! i < level fr ! i
            then level fr ! i else q_level Q s ! i)"
    by (simp only: fold_frame_cell(2) [OF s' assms(1,2,4)] to_int64_id [OF assms(5)])
  then show ?thesis
    unfolding Let_def
    using s' fold_frame_cell(1) [OF s' assms(1,2,4)] by blast
qed

theorem overwrite_rule_witness:
  "wf_frame fr_a \<and> wf_summary (init (1, 1)) \<and> shape fr_a = dims (init (1, 1)) \<and>
   (0::nat) < ncells (dims (init (1, 1))) \<and> is_int64 (level fr_a ! 0) \<and>
   (\<exists>s'. fold_frame (Fin 1000) (Fin 2700) fr_a (init (1, 1)) = Inr s' \<and>
      eta_max s' ! 0 = Fin 5 \<and> eta_max_lev s' ! 0 = 1)"
proof -
  have a: "wf_frame fr_a" by (simp add: wf_frame_def fr_a_def ncells_def)
  have b: "wf_summary (init (1, 1))" by (rule wf_init)
  have c: "shape fr_a = dims (init (1, 1))" by (simp add: fr_a_def init_def)
  have d: "(0::nat) < ncells (dims (init (1, 1)))" by (simp add: init_def ncells_def)
  have e: "is_int64 (level fr_a ! 0)" by (simp add: fr_a_def is_int64_def)
  from overwrite_rule [OF a b c d e, of "Fin 1000" "Fin 2700"]
  obtain s' where s': "fold_frame (Fin 1000) (Fin 2700) fr_a (init (1, 1)) = Inr s'"
    and q: "\<And>Q. let wins = (q_level Q (init (1, 1)) ! 0 \<le> level fr_a ! 0 \<and>
                             q_cmp Q (q_new (Fin 1000) (Fin 2700) Q fr_a ! 0)
                               (q_value Q (init (1, 1)) ! 0)) \<or>
                            q_level Q (init (1, 1)) ! 0 < level fr_a ! 0
                in q_value Q s' ! 0 =
                     (if wins then q_new (Fin 1000) (Fin 2700) Q fr_a ! 0
                      else q_value Q (init (1, 1)) ! 0) \<and>
                   q_level Q s' ! 0 = (if wins then level fr_a ! 0 else q_level Q (init (1, 1)) ! 0)"
    by blast
  from q [of Q_eta] have "eta_max s' ! 0 = Fin 5 \<and> eta_max_lev s' ! 0 = 1"
    by (simp add: Let_def init_def fr_a_def ncells_def)
  with a b c d e s' show ?thesis by blast
qed

text \<open>
  C2, as the code has it. After \<open>finalize\<close>, a cell whose accumulated depth maximum is below
  \<open>0.00001\<close> as a \<^verbatim>\<open>float32\<close>, the number \<open>never_inundated_below\<close>, holds \<open>NaN\<close> in the
  depth, solid-fraction, velocity, momentum and Froude maxima and in the three time arrays; a time that is still negative becomes \<open>NaN\<close>; every
  other cell of these arrays is unchanged. The depth minimum becomes \<open>NaN\<close> exactly where it
  equals \<open>0\<close>; a cell still holding the fill value \<open>99999\<close> keeps it.
\<close>

theorem finalize_masking:
  assumes "wf_summary s" and "i < ncells (dims s)"
  shows
    "(let s' = finalize s;
          never_inundated = fl_lt (h_max s ! i) (Fin never_inundated_below)
      in h_max s' ! i = (if never_inundated then NaN else h_max s ! i) \<and>
         m_max s' ! i = (if never_inundated then NaN else m_max s ! i) \<and>
         vel_max s' ! i = (if never_inundated then NaN else vel_max s ! i) \<and>
         mom_max s' ! i = (if never_inundated then NaN else mom_max s ! i) \<and>
         froude_max s' ! i = (if never_inundated then NaN else froude_max s ! i) \<and>
         eta_max_time s' ! i =
           (if never_inundated \<or> fl_lt (eta_max_time s ! i) (Fin 0) then NaN
            else eta_max_time s ! i) \<and>
         vel_max_time s' ! i =
           (if never_inundated \<or> fl_lt (vel_max_time s ! i) (Fin 0) then NaN
            else vel_max_time s ! i) \<and>
         arrival_time s' ! i =
           (if never_inundated \<or> fl_lt (arrival_time s ! i) (Fin 0) then NaN
            else arrival_time s ! i) \<and>
         h_min s' ! i = (if fl_eq (h_min s ! i) (Fin 0) then NaN else h_min s ! i))"
proof -
  have len: "i < length (h_max s)" "i < length (h_min s)" "i < length (m_max s)"
      "i < length (vel_max s)" "i < length (mom_max s)" "i < length (froude_max s)"
      "i < length (eta_max_time s)" "i < length (vel_max_time s)" "i < length (arrival_time s)"
    using assms by (simp_all add: wf_summary_def)
  show ?thesis
    unfolding Let_def using len
    by (simp add: finalize_fields nth_fill_where)
qed

theorem finalize_masking_witness:
  "wf_summary s_dry \<and> (0::nat) < ncells (dims s_dry) \<and>
   h_max (finalize s_dry) ! 0 = NaN \<and> arrival_time (finalize s_dry) ! 0 = NaN \<and>
   h_min (finalize s_dry) ! 0 = NaN"
proof -
  have a: "wf_summary s_dry" by (simp add: wf_summary_def s_dry_def init_def ncells_def)
  have b: "(0::nat) < ncells (dims s_dry)" by (simp add: s_dry_def init_def ncells_def)
  from finalize_masking [OF a b]
  have "h_max (finalize s_dry) ! 0 = NaN \<and> arrival_time (finalize s_dry) ! 0 = NaN \<and>
        h_min (finalize s_dry) ! 0 = NaN"
    by (simp add: Let_def s_dry_def init_def ncells_def never_inundated_below_def)
  with a b show ?thesis by simp
qed

text \<open>
  C2 as stated fails: the depth minimum of a dry cell left the fill value when the frame
  wrote \<open>0\<close> into it, and \<open>finalize\<close> replaces it by \<open>NaN\<close> all the same.
\<close>

theorem written_depth_min_is_masked:
  "h_min (init (1, 1)) ! 0 = Fin 99999 \<and>
   fold_frame (Fin 1000) (Fin 2700) fr_dry (init (1, 1)) = Inr s_dry \<and>
   h_min s_dry ! 0 = Fin 0 \<and> h_min (finalize s_dry) ! 0 = NaN"
proof -
  have "h_min (init (1, 1)) ! 0 = Fin 99999"
    by (simp add: init_def ncells_def hmin_fill_def)
  moreover have "h_min s_dry ! 0 = Fin 0"
    by (simp add: s_dry_def)
  moreover have "h_min (finalize s_dry) ! 0 = NaN"
    by (simp add: finalize_fields(3) s_dry_def)
  ultimately show ?thesis
    using fold_dry by blast
qed

text \<open>
  C3. At a dry cell (depth and fluxes \<open>0\<close>) on level 1 the Froude number of the frame is
  \<open>0/0 = NaN\<close>, unlike solid fraction and velocity, whose \<open>NaN\<close> is replaced by \<open>0\<close>. The
  frame's level is above the recorded level \<open>0\<close>, so the \<open>NaN\<close> is stored as the Froude
  maximum. A later wet frame on the same level never wins the comparison with \<open>NaN\<close>, and
  the written Froude band of an inundated cell is \<open>NaN\<close>.
\<close>

theorem dry_cell_froude_is_nan:
  "derived_froude fr_dry = [NaN] \<and>
   fold_frame (Fin 1000) (Fin 2700) fr_dry (init (1, 1)) = Inr s_dry \<and>
   froude_max s_dry = [NaN] \<and>
   dclaw2maxval_withlev None (Fin 1000) (Fin 2700) True [fr_dry, fr_a] =
     Inr [[Fin 5], [Fin 0], [Fin 0], [Fin 0], [Fin 10], [Fin 10], [Fin 5], [Fin 1], [Fin 10],
          [NaN], [NaN]]"
proof -
  have sh: "shape fr_dry = (1, 1)" by (simp add: fr_dry_def)
  have run: "dclaw2maxval_withlev None (Fin 1000) (Fin 2700) True [fr_dry, fr_a] =
          Inr (write_bands True (finalize s_wet))"
    by (simp add: dclaw2maxval_withlev_def calc_def sh fold_dry fold_wet del: One_nat_def)
  have bands: "write_bands True (finalize s_wet) =
     [[Fin 5], [Fin 0], [Fin 0], [Fin 0], [Fin 10], [Fin 10], [Fin 5], [Fin 1], [Fin 10],
      [NaN], [NaN]]"
    by (simp add: write_bands_def finalize_fields)
      (simp add: s_wet_def s_dry_def init_def ncells_def fill_where_def
         never_inundated_below_def)
  have fm: "froude_max s_dry = [NaN]" by (simp add: s_dry_def)
  have out: "dclaw2maxval_withlev None (Fin 1000) (Fin 2700) True [fr_dry, fr_a] =
     Inr [[Fin 5], [Fin 0], [Fin 0], [Fin 0], [Fin 10], [Fin 10], [Fin 5], [Fin 1], [Fin 10],
          [NaN], [NaN]]"
    by (simp only: run bands)
  from derived_dry(3) fold_dry fm out show ?thesis by (intro conjI)
qed

text \<open>
  C4. Over a sequence of frames with non-negative times, the arrival time of a cell that is
  still negative (the initial \<open>-1\<close>) becomes the time of the first frame in which the surface
  elevation at the cell exceeds \<open>0.01\<close> and the cell's level is the largest level of that
  frame, and stays \<open>-1\<close> when there is no such frame; an arrival time that is already set is
  never changed, whatever the later frames hold.
\<close>

theorem arrival_written_once:
  assumes "list_all (\<lambda>fr. wf_frame fr \<and> shape fr = dims s \<and> fl_ge (time fr) (Fin 0)) frs"
    and "wf_summary s" and "i < ncells (dims s)"
  shows "\<exists>s'. fold_frames rho_f rho_s frs s = Inr s' \<and>
           arrival_time s' ! i =
             (if fl_lt (arrival_time s ! i) (Fin 0)
              then (case find (\<lambda>fr. fl_gt (eta fr ! i) (Fin 0.01) \<and>
                                     level fr ! i = Max (set (level fr))) frs of
                      None \<Rightarrow> arrival_time s ! i
                    | Some fr \<Rightarrow> time fr)
              else arrival_time s ! i)"
  using assms
proof (induction frs arbitrary: s)
  case Nil
  then show ?case by simp
next
  case (Cons fr frs)
  from Cons.prems(1) have fr: "wf_frame fr" "shape fr = dims s" and t: "fl_ge (time fr) (Fin 0)"
    and rest: "list_all (\<lambda>fr. wf_frame fr \<and> shape fr = dims s \<and> fl_ge (time fr) (Fin 0)) frs"
    by simp_all
  from fold_frame_total [OF fr Cons.prems(3)]
  obtain s1 where s1: "fold_frame rho_f rho_s fr s = Inr s1" by blast
  have wf1: "wf_summary s1" by (rule fold_frame_wf [OF s1 fr(1) Cons.prems(2)])
  have d1: "dims s1 = dims s" by (rule fold_frame_fields(1) [OF s1])
  note a1 = fold_frame_arrival_cell [OF s1 fr(1) Cons.prems(2,3)]
  from Cons.IH [of s1] rest wf1 d1 Cons.prems(3)
  obtain s' where s': "fold_frames rho_f rho_s frs s1 = Inr s'"
    and ih: "arrival_time s' ! i =
             (if fl_lt (arrival_time s1 ! i) (Fin 0)
              then (case find (\<lambda>fr. fl_gt (eta fr ! i) (Fin 0.01) \<and>
                                     level fr ! i = Max (set (level fr))) frs of
                      None \<Rightarrow> arrival_time s1 ! i
                    | Some fr \<Rightarrow> time fr)
              else arrival_time s1 ! i)"
    by auto
  have "arrival_time s' ! i =
             (if fl_lt (arrival_time s ! i) (Fin 0)
              then (case find (\<lambda>fr. fl_gt (eta fr ! i) (Fin 0.01) \<and>
                                     level fr ! i = Max (set (level fr))) (fr # frs) of
                      None \<Rightarrow> arrival_time s ! i
                    | Some fr \<Rightarrow> time fr)
              else arrival_time s ! i)"
    using ih a1 fl_ge_not_lt [OF t] by (simp split: option.splits)
  with s1 s' show ?case by simp
qed

theorem arrival_written_once_witness:
  "list_all (\<lambda>fr. wf_frame fr \<and> shape fr = dims (init (1, 1)) \<and> fl_ge (time fr) (Fin 0))
     [fr_a, fr_b] \<and>
   wf_summary (init (1, 1)) \<and> (0::nat) < ncells (dims (init (1, 1))) \<and>
   (\<exists>s'. fold_frames (Fin 1000) (Fin 2700) [fr_a, fr_b] (init (1, 1)) = Inr s' \<and>
      arrival_time s' ! 0 = Fin 10)"
proof -
  have t: "fl_ge (time fr_a) (Fin 0)" "fl_ge (time fr_b) (Fin 0)"
    by (simp_all add: fr_a_def fr_b_def fl_ge_def)
  have a: "list_all (\<lambda>fr. wf_frame fr \<and> shape fr = dims (init (1, 1)) \<and> fl_ge (time fr) (Fin 0))
     [fr_a, fr_b]"
    using wf_fr_a wf_fr_b shape_fr_a shape_fr_b t by simp
  from arrival_written_once [OF a wf_init cell0, of "Fin 1000" "Fin 2700"]
  obtain s' where run: "fold_frames (Fin 1000) (Fin 2700) [fr_a, fr_b] (init (1, 1)) = Inr s'"
    and arr: "arrival_time s' ! 0 =
             (if fl_lt (arrival_time (init (1, 1)) ! 0) (Fin 0)
              then (case find (\<lambda>fr. fl_gt (eta fr ! 0) (Fin 0.01) \<and>
                                     level fr ! 0 = Max (set (level fr))) [fr_a, fr_b] of
                      None \<Rightarrow> arrival_time (init (1, 1)) ! 0
                    | Some fr \<Rightarrow> time fr)
              else arrival_time (init (1, 1)) ! 0)"
    by blast
  have "(if fl_lt (arrival_time (init (1, 1)) ! 0) (Fin 0)
              then (case find (\<lambda>fr. fl_gt (eta fr ! 0) (Fin 0.01) \<and>
                                     level fr ! 0 = Max (set (level fr))) [fr_a, fr_b] of
                      None \<Rightarrow> arrival_time (init (1, 1)) ! 0
                    | Some fr \<Rightarrow> time fr)
              else arrival_time (init (1, 1)) ! 0) = Fin 10"
    by (simp add: init_def ncells_def fr_a_def fl_gt_def)
  with arr have "arrival_time s' ! 0 = Fin 10" by (rule trans)
  with run have "\<exists>s'. fold_frames (Fin 1000) (Fin 2700) [fr_a, fr_b] (init (1, 1)) = Inr s' \<and>
      arrival_time s' ! 0 = Fin 10"
    by blast
  with a wf_init cell0 show ?thesis by (intro conjI)
qed



text \<open>
  C6. For any tracked quantity and any cell whose recorded level is below 2 (as in the initial
  summary), a frame on level 1 with value 5 and a frame on level 2 with value 3, folded in
  either order, leave value 3 on level 2.
\<close>

theorem finer_level_wins_either_order:
  assumes "wf_frame f1" and "wf_frame f2" and "wf_summary s"
    and "shape f1 = dims s" and "shape f2 = dims s" and "i < ncells (dims s)"
    and "level f1 ! i = 1" and "q_new rho_f rho_s Q f1 ! i = Fin 5"
    and "level f2 ! i = 2" and "q_new rho_f rho_s Q f2 ! i = Fin 3"
    and "q_level Q s ! i < 2"
  shows "\<exists>s12 s21. fold_frames rho_f rho_s [f1, f2] s = Inr s12 \<and>
           fold_frames rho_f rho_s [f2, f1] s = Inr s21 \<and>
           q_value Q s12 ! i = Fin 3 \<and> q_level Q s12 ! i = 2 \<and>
           q_value Q s21 ! i = Fin 3 \<and> q_level Q s21 ! i = 2"
proof -
  from fold_frame_total [OF assms(1,4,6)]
  obtain s1 where s1: "fold_frame rho_f rho_s f1 s = Inr s1" by blast
  have wf1: "wf_summary s1" by (rule fold_frame_wf [OF s1 assms(1,3)])
  have d1: "dims s1 = dims s" by (rule fold_frame_fields(1) [OF s1])
  from fold_frame_total [of f2 s1 i] assms(2,5,6) d1
  obtain s12 where s12: "fold_frame rho_f rho_s f2 s1 = Inr s12" by auto
  from fold_frame_total [OF assms(2,5,6)]
  obtain s2 where s2: "fold_frame rho_f rho_s f2 s = Inr s2" by blast
  have wf2: "wf_summary s2" by (rule fold_frame_wf [OF s2 assms(2,3)])
  have d2: "dims s2 = dims s" by (rule fold_frame_fields(1) [OF s2])
  from fold_frame_total [of f1 s2 i] assms(1,4,6) d2
  obtain s21 where s21: "fold_frame rho_f rho_s f1 s2 = Inr s21" by auto
  have i1: "i < ncells (dims s1)" and i2: "i < ncells (dims s2)"
    using assms(6) d1 d2 by simp_all
  have lv: "to_int64 1 = 1" "to_int64 2 = 2"
    by (simp_all add: to_int64_id is_int64_small)
  have l1: "q_level Q s1 ! i < 2"
    using assms(7,11) by (simp add: fold_frame_cell(2) [OF s1 assms(1,3,6)] lv)
  have a: "q_value Q s12 ! i = Fin 3 \<and> q_level Q s12 ! i = 2"
    using l1 assms(9,10)
    by (simp add: fold_frame_cell [OF s12 assms(2) wf1 i1] lv)
  have b2: "q_value Q s2 ! i = Fin 3 \<and> q_level Q s2 ! i = 2"
    using assms(9,10,11) by (simp add: fold_frame_cell [OF s2 assms(2,3,6)] lv)
  have b: "q_value Q s21 ! i = Fin 3 \<and> q_level Q s21 ! i = 2"
    using b2 assms(7)
    by (simp add: fold_frame_cell [OF s21 assms(1) wf2 i2] lv)
  from s1 s12 s2 s21 a b show ?thesis by simp
qed

theorem finer_level_wins_either_order_witness:
  "wf_frame fr_a \<and> wf_frame fr_b \<and> wf_summary (init (1, 1)) \<and>
   shape fr_a = dims (init (1, 1)) \<and> shape fr_b = dims (init (1, 1)) \<and>
   (0::nat) < ncells (dims (init (1, 1))) \<and>
   level fr_a ! 0 = 1 \<and> q_new (Fin 1000) (Fin 2700) Q_eta fr_a ! 0 = Fin 5 \<and>
   level fr_b ! 0 = 2 \<and> q_new (Fin 1000) (Fin 2700) Q_eta fr_b ! 0 = Fin 3 \<and>
   q_level Q_eta (init (1, 1)) ! 0 < 2 \<and>
   (\<exists>s12 s21. fold_frames (Fin 1000) (Fin 2700) [fr_a, fr_b] (init (1, 1)) = Inr s12 \<and>
      fold_frames (Fin 1000) (Fin 2700) [fr_b, fr_a] (init (1, 1)) = Inr s21 \<and>
      eta_max s12 ! 0 = Fin 3 \<and> eta_max_lev s12 ! 0 = 2 \<and>
      eta_max s21 ! 0 = Fin 3 \<and> eta_max_lev s21 ! 0 = 2)"
proof -
  have l1: "level fr_a ! 0 = 1" and v1: "q_new (Fin 1000) (Fin 2700) Q_eta fr_a ! 0 = Fin 5"
    by (simp_all add: fr_a_def)
  have l2: "level fr_b ! 0 = 2" and v2: "q_new (Fin 1000) (Fin 2700) Q_eta fr_b ! 0 = Fin 3"
    by (simp_all add: fr_b_def)
  have l0: "q_level Q_eta (init (1, 1)) ! 0 < 2"
    by (simp add: init_def ncells_def)
  from finer_level_wins_either_order
    [OF wf_fr_a wf_fr_b wf_init shape_fr_a shape_fr_b cell0 l1 v1 l2 v2 l0]
  have "\<exists>s12 s21. fold_frames (Fin 1000) (Fin 2700) [fr_a, fr_b] (init (1, 1)) = Inr s12 \<and>
      fold_frames (Fin 1000) (Fin 2700) [fr_b, fr_a] (init (1, 1)) = Inr s21 \<and>
      eta_max s12 ! 0 = Fin 3 \<and> eta_max_lev s12 ! 0 = 2 \<and>
      eta_max s21 ! 0 = Fin 3 \<and> eta_max_lev s21 ! 0 = 2"
    by simp
  with wf_fr_a wf_fr_b wf_init shape_fr_a shape_fr_b cell0 l1 v1 l2 v2 l0
  show ?thesis by (intro conjI)
qed

text \<open>
  C7. Applying \<open>finalize\<close> twice gives the summary that applying it once gives, for every
  summary.
\<close>

theorem finalize_idempotent: "finalize (finalize s) = finalize s"
proof (rule summary.equality)
  show "h_max (finalize (finalize s)) = h_max (finalize s)"
    by (simp add: finalize_fields(2))
  show "h_min (finalize (finalize s)) = h_min (finalize s)"
    by (simp add: finalize_fields(3))
  show "m_max (finalize (finalize s)) = m_max (finalize s)"
    by (simp only: finalize_fields(4) [of "finalize s"] never_after_finalize)
      (simp only: finalize_fields(4) [of s] mask_twice)
  show "vel_max (finalize (finalize s)) = vel_max (finalize s)"
    by (simp only: finalize_fields(5) [of "finalize s"] never_after_finalize)
      (simp only: finalize_fields(5) [of s] mask_twice)
  show "mom_max (finalize (finalize s)) = mom_max (finalize s)"
    by (simp only: finalize_fields(6) [of "finalize s"] never_after_finalize)
      (simp only: finalize_fields(6) [of s] mask_twice)
  show "froude_max (finalize (finalize s)) = froude_max (finalize s)"
    by (simp only: finalize_fields(7) [of "finalize s"] never_after_finalize)
      (simp only: finalize_fields(7) [of s] mask_twice)
  show "eta_max_time (finalize (finalize s)) = eta_max_time (finalize s)"
    by (simp only: finalize_fields(8) [of "finalize s"] never_after_finalize)
      (simp only: finalize_fields(8) [of s] mask_negative_twice)
  show "vel_max_time (finalize (finalize s)) = vel_max_time (finalize s)"
    by (simp only: finalize_fields(9) [of "finalize s"] never_after_finalize)
      (simp only: finalize_fields(9) [of s] mask_negative_twice)
  show "arrival_time (finalize (finalize s)) = arrival_time (finalize s)"
    by (simp only: finalize_fields(10) [of "finalize s"] never_after_finalize)
      (simp only: finalize_fields(10) [of s] mask_negative_twice)
qed (simp_all add: finalize_fields)

text \<open>
  C8. With no raster file the function raises \<^verbatim>\<open>ValueError("no files")\<close>: nothing is folded
  and no band is written.
\<close>

theorem no_files_is_fatal:
  "dclaw2maxval_withlev nplots rho_f rho_s write_froude [] = Inl (ValueError ''no files'')"
  by (simp add: dclaw2maxval_withlev_def)

text \<open>
  C9. \<open>finalize\<close> changes neither the surface-elevation maximum nor the largest level seen,
  and bands 7 and 8 of the output are these two arrays as the passes left them.
\<close>

theorem finalize_keeps_eta_and_level:
  "eta_max (finalize s) = eta_max s \<and> lev_max (finalize s) = lev_max s \<and>
   write_bands write_froude (finalize s) ! 6 = eta_max s \<and>
   write_bands write_froude (finalize s) ! 7 = lev_max s"
  by (simp add: finalize_fields write_bands_def)

text \<open>
  C10. Over any sequence of frames, the recorded level of every tracked quantity never
  decreases at a cell whose level in every frame is a 64-bit integer.
\<close>

theorem recorded_level_monotone:
  assumes "list_all (\<lambda>fr. wf_frame fr \<and> shape fr = dims s \<and> is_int64 (level fr ! i)) frs"
    and "wf_summary s" and "i < ncells (dims s)"
  shows "\<exists>s'. fold_frames rho_f rho_s frs s = Inr s' \<and> (\<forall>Q. q_level Q s ! i \<le> q_level Q s' ! i)"
  using assms
proof (induction frs arbitrary: s)
  case Nil
  then show ?case by simp
next
  case (Cons fr frs)
  from Cons.prems(1) have fr: "wf_frame fr" "shape fr = dims s" "is_int64 (level fr ! i)"
    and rest: "list_all (\<lambda>fr. wf_frame fr \<and> shape fr = dims s \<and> is_int64 (level fr ! i)) frs"
    by simp_all
  from fold_frame_total [OF fr(1,2) Cons.prems(3)]
  obtain s1 where s1: "fold_frame rho_f rho_s fr s = Inr s1" by blast
  have wf1: "wf_summary s1" by (rule fold_frame_wf [OF s1 fr(1) Cons.prems(2)])
  have d1: "dims s1 = dims s" by (rule fold_frame_fields(1) [OF s1])
  have step: "\<And>Q. q_level Q s ! i \<le> q_level Q s1 ! i"
    by (rule fold_frame_level_mono [OF s1 fr(1) Cons.prems(2,3) fr(3)])
  from Cons.IH [of s1] rest wf1 d1 Cons.prems(3)
  obtain s' where s': "fold_frames rho_f rho_s frs s1 = Inr s'"
    and mono: "\<And>Q. q_level Q s1 ! i \<le> q_level Q s' ! i"
    by auto
  have "\<And>Q. q_level Q s ! i \<le> q_level Q s' ! i"
    using step mono by (rule order_trans)
  with s1 s' show ?case by simp
qed

theorem recorded_level_monotone_witness:
  "list_all (\<lambda>fr. wf_frame fr \<and> shape fr = dims (init (1, 1)) \<and> is_int64 (level fr ! 0))
     [fr_a, fr_b] \<and>
   wf_summary (init (1, 1)) \<and> (0::nat) < ncells (dims (init (1, 1))) \<and>
   (\<exists>s'. fold_frames (Fin 1000) (Fin 2700) [fr_a, fr_b] (init (1, 1)) = Inr s' \<and>
      (\<forall>Q. q_level Q (init (1, 1)) ! 0 \<le> q_level Q s' ! 0))"
proof -
  have a: "list_all (\<lambda>fr. wf_frame fr \<and> shape fr = dims (init (1, 1)) \<and> is_int64 (level fr ! 0))
             [fr_a, fr_b]"
    using wf_fr_a wf_fr_b shape_fr_a shape_fr_b
    by (simp add: fr_a_def fr_b_def is_int64_def)
  from a wf_init cell0 recorded_level_monotone [OF a wf_init cell0, of "Fin 1000" "Fin 2700"]
  show ?thesis by (intro conjI)
qed

end
